theory Spec2Isabelle
  imports Complex_Main "HOL-Library.AList"
begin

section \<open>Python values, exceptions and the library functions the program calls\<close>

text \<open>
  The program (\<^verbatim>\<open>app.py\<close>) works on dynamically typed values: what \<^verbatim>\<open>json.loads\<close>
  returns, what it stores in \<^verbatim>\<open>funds.json\<close>, and the dictionaries it builds itself.
  A dictionary is an association list in insertion order. A Python \<^verbatim>\<open>float\<close> is modelled
  by the real number it denotes: rounding, infinities and NaN are not part of this model,
  and an \<^verbatim>\<open>int\<close> is the same number. Strings are byte strings (UTF-8).
\<close>

datatype pyval =
    PNone
  | PBool bool
  | PNum real
  | PStr string
  | PList "pyval list"
  | PDict "(string \<times> pyval) list"

type_synonym pydict = "(string \<times> pyval) list"

datatype exn =
    RequestException
  | ValueError
  | JSONDecodeError
  | IndexError
  | KeyError
  | TypeError
  | AttributeError
  | ZeroDivisionError

text \<open>
  Functions of the Python library that the program calls and does not define. They are
  parameters of the model: \<^verbatim>\<open>float\<close> on a string (\<open>None\<close> is \<^verbatim>\<open>ValueError\<close>),
  \<^verbatim>\<open>str\<close> on a value that is not a string, \<^verbatim>\<open>str.strip\<close>, and \<^verbatim>\<open>json.loads\<close>
  (\<open>None\<close> is \<^verbatim>\<open>json.JSONDecodeError\<close>).
\<close>

record pylib =
  float_of_str :: "string \<Rightarrow> real option"
  str_of :: "pyval \<Rightarrow> string"
  strip :: "string \<Rightarrow> string"
  json_loads :: "string \<Rightarrow> pyval option"

definition exn_bind :: "exn + 'a \<Rightarrow> ('a \<Rightarrow> exn + 'b) \<Rightarrow> exn + 'b" where
  "exn_bind m f = (case m of Inl e \<Rightarrow> Inl e | Inr x \<Rightarrow> f x)"

text \<open>Truth value of a Python object, as \<^verbatim>\<open>if x:\<close>, \<^verbatim>\<open>not x\<close> and \<^verbatim>\<open>x or y\<close> test it.\<close>

fun truthy :: "pyval \<Rightarrow> bool" where
  "truthy PNone = False"
| "truthy (PBool b) = b"
| "truthy (PNum r) = (r \<noteq> 0)"
| "truthy (PStr s) = (s \<noteq> [])"
| "truthy (PList xs) = (xs \<noteq> [])"
| "truthy (PDict kvs) = (kvs \<noteq> [])"

definition py_or :: "pyval \<Rightarrow> pyval \<Rightarrow> pyval" where
  "py_or a b = (if truthy a then a else b)"

text \<open>\<^verbatim>\<open>float(x)\<close>: a number converts, a string is parsed, \<^verbatim>\<open>None\<close> and containers raise.\<close>

fun py_float :: "pylib \<Rightarrow> pyval \<Rightarrow> exn + real" where
  "py_float lib (PNum r) = Inr r"
| "py_float lib (PBool b) = Inr (if b then 1 else 0)"
| "py_float lib (PStr s) = (case float_of_str lib s of None \<Rightarrow> Inl ValueError | Some r \<Rightarrow> Inr r)"
| "py_float lib PNone = Inl TypeError"
| "py_float lib (PList xs) = Inl TypeError"
| "py_float lib (PDict kvs) = Inl TypeError"

text \<open>\<^verbatim>\<open>str(x)\<close> and the formatting of \<^verbatim>\<open>{x}\<close> in an f-string.\<close>

fun py_str :: "pylib \<Rightarrow> pyval \<Rightarrow> string" where
  "py_str lib (PStr s) = s"
| "py_str lib v = str_of lib v"

text \<open>\<^verbatim>\<open>x / y\<close> on floats.\<close>

definition py_truediv :: "real \<Rightarrow> real \<Rightarrow> exn + real" where
  "py_truediv a b = (if b = 0 then Inl ZeroDivisionError else Inr (a / b))"

text \<open>\<^verbatim>\<open>d.get(k, default)\<close> on a dictionary, and on any object (only a dictionary has \<^verbatim>\<open>get\<close>).\<close>

definition dict_get :: "pydict \<Rightarrow> string \<Rightarrow> pyval \<Rightarrow> pyval" where
  "dict_get d k dflt = (case map_of d k of None \<Rightarrow> dflt | Some v \<Rightarrow> v)"

fun attr_get :: "pyval \<Rightarrow> string \<Rightarrow> pyval \<Rightarrow> exn + pyval" where
  "attr_get (PDict d) k dflt = Inr (dict_get d k dflt)"
| "attr_get v k dflt = Inl AttributeError"

text \<open>\<^verbatim>\<open>x[k]\<close> with a string key, and \<^verbatim>\<open>x[k] = v\<close>.\<close>

fun subscript :: "pyval \<Rightarrow> string \<Rightarrow> exn + pyval" where
  "subscript (PDict d) k = (case map_of d k of None \<Rightarrow> Inl KeyError | Some v \<Rightarrow> Inr v)"
| "subscript v k = Inl TypeError"


text \<open>\<^verbatim>\<open>xs[i]\<close> on a list, with a non-negative index.\<close>

definition list_item :: "'a list \<Rightarrow> nat \<Rightarrow> exn + 'a" where
  "list_item xs i = (if i < length xs then Inr (xs ! i) else Inl IndexError)"

subsection \<open>Text: the two regular expressions and \<^verbatim>\<open>split\<close>\<close>

fun startswith :: "string \<Rightarrow> string \<Rightarrow> bool" where
  "startswith s [] = True"
| "startswith [] (p # ps) = False"
| "startswith (c # cs) (p # ps) = (c = p \<and> startswith cs ps)"

text \<open>
  The lazy group \<^verbatim>\<open>(.*?)\<close> followed by a literal: the shortest run of characters other
  than a line feed after which the literal stands.
\<close>

fun lazy_group :: "string \<Rightarrow> string \<Rightarrow> string option" where
  "lazy_group post [] = (if post = [] then Some [] else None)"
| "lazy_group post (c # cs) =
     (if startswith (c # cs) post then Some []
      else if c = CHR 0x0A then None
      else map_option (Cons c) (lazy_group post cs))"

text \<open>
  \<^verbatim>\<open>re.search\<close> of a pattern \<^verbatim>\<open>pre(.*?)post\<close> with literal \<open>pre\<close> and \<open>post\<close>: the
  leftmost position where it matches; the result is group 1.
\<close>

fun re_search_group :: "string \<Rightarrow> string \<Rightarrow> string \<Rightarrow> string option" where
  "re_search_group pre post [] =
     (if pre = [] then lazy_group post [] else None)"
| "re_search_group pre post (c # cs) =
     (if startswith (c # cs) pre then
        (case lazy_group post (drop (length pre) (c # cs)) of
           Some g \<Rightarrow> Some g
         | None \<Rightarrow> re_search_group pre post cs)
      else re_search_group pre post cs)"

text \<open>\<^verbatim>\<open>s.split(sep)\<close> with a one-character separator.\<close>

fun split_on :: "char \<Rightarrow> string \<Rightarrow> string list" where
  "split_on sep [] = [[]]"
| "split_on sep (c # cs) =
     (if c = sep then [] # split_on sep cs
      else (case split_on sep cs of
              w # ws \<Rightarrow> (c # w) # ws
            | [] \<Rightarrow> [[c]]))"

section \<open>Data sources\<close>

text \<open>
  What \<^verbatim>\<open>requests.get\<close> gives: it raises \<^verbatim>\<open>requests.RequestException\<close> (no connection,
  timeout), or returns a response, of which the program reads \<^verbatim>\<open>res.text\<close> and
  \<^verbatim>\<open>res.content.decode('gbk')\<close> (\<open>None\<close> where that raises \<^verbatim>\<open>UnicodeDecodeError\<close>).
\<close>

record response =
  resp_text :: string
  resp_content_gbk :: "string option"

datatype http_result = Failed | Responded response

text \<open>The UTF-8 bytes of the two characters before the code in a generated fund name.\<close>

definition fund_prefix :: string where
  "fund_prefix = [CHR 0xE5, CHR 0x9F, CHR 0xBA, CHR 0xE9, CHR 0x87, CHR 0x91]"

text \<open>The body of the \<^verbatim>\<open>try\<close> block of \<^verbatim>\<open>fetch_from_eastmoney\<close>.\<close>

definition fetch_from_eastmoney_try :: "pylib \<Rightarrow> pyval \<Rightarrow> http_result \<Rightarrow> exn + pydict option" where
  "fetch_from_eastmoney_try lib c http =
     (case http of
        Failed \<Rightarrow> Inl RequestException
      | Responded res \<Rightarrow>
          (case re_search_group ''jsonpgz('' '');'' (resp_text res) of
             None \<Rightarrow> Inr None
           | Some g \<Rightarrow>
               (case json_loads lib g of
                  None \<Rightarrow> Inl JSONDecodeError
                | Some data \<Rightarrow>
                    exn_bind (attr_get data ''name'' (PStr (fund_prefix @ py_str lib c))) (\<lambda>nm.
                    exn_bind (exn_bind (attr_get data ''gsz'' (PNum 0)) (py_float lib)) (\<lambda>g.
                    exn_bind (exn_bind (attr_get data ''dwjz'' (PNum 0)) (py_float lib)) (\<lambda>d.
                    exn_bind (exn_bind (attr_get data ''gszzl'' (PNum 0)) (py_float lib)) (\<lambda>z.
                    exn_bind (attr_get data ''gztime'' (PStr [])) (\<lambda>t.
                    Inr (Some
                      [(''source'', PStr ''eastmoney''),
                       (''name'', nm),
                       (''gsz'', PNum g),
                       (''dwjz'', PNum d),
                       (''gszzl'', PNum z),
                       (''update_time'', t)])))))))))"

text \<open>The \<^verbatim>\<open>except\<close> clause catches three classes; any other exception leaves the function.\<close>

definition fetch_from_eastmoney :: "pylib \<Rightarrow> pyval \<Rightarrow> http_result \<Rightarrow> exn + pydict option" where
  "fetch_from_eastmoney lib c http =
     (case fetch_from_eastmoney_try lib c http of
        Inl e \<Rightarrow>
          (if e = RequestException \<or> e = ValueError \<or> e = JSONDecodeError then Inr None
           else Inl e)
      | Inr r \<Rightarrow> Inr r)"

text \<open>
  \<^verbatim>\<open>fetch_from_sina\<close>: the text is the GBK decoding of the body, or \<^verbatim>\<open>res.text\<close>
  where that decoding fails; then the part between \<^verbatim>\<open>="\<close> and the next \<^verbatim>\<open>"\<close>, split
  at commas.
\<close>

definition sina_content :: "response \<Rightarrow> string" where
  "sina_content res = (case resp_content_gbk res of Some s \<Rightarrow> s | None \<Rightarrow> resp_text res)"

definition sina_fields :: "response \<Rightarrow> string list option" where
  "sina_fields res =
     map_option (split_on CHR '','') (re_search_group [CHR ''='', CHR 0x22] [CHR 0x22] (sina_content res))"

definition str_float :: "pylib \<Rightarrow> string \<Rightarrow> exn + real" where
  "str_float lib s = py_float lib (PStr s)"

definition fetch_from_sina_try :: "pylib \<Rightarrow> pyval \<Rightarrow> http_result \<Rightarrow> exn + pydict option" where
  "fetch_from_sina_try lib c http =
     (case http of
        Failed \<Rightarrow> Inl RequestException
      | Responded res \<Rightarrow>
          (case sina_fields res of
             None \<Rightarrow> Inr None
           | Some data \<Rightarrow>
               if length data < 5 then Inr None
               else
                 exn_bind (list_item data 0) (\<lambda>nm.
                 exn_bind (exn_bind (list_item data 1) (str_float lib)) (\<lambda>g.
                 exn_bind (exn_bind (list_item data 3) (str_float lib)) (\<lambda>d.
                 exn_bind (if d \<noteq> 0
                           then exn_bind (py_truediv (g - d) d) (\<lambda>q. Inr (q * 100))
                           else Inr 0) (\<lambda>z.
                 exn_bind (list_item data 4) (\<lambda>t.
                 Inr (Some
                   [(''source'', PStr ''sina''),
                    (''name'', PStr nm),
                    (''gsz'', PNum g),
                    (''dwjz'', PNum d),
                    (''gszzl'', PNum z),
                    (''update_time'', PStr t)]))))))))"

definition fetch_from_sina :: "pylib \<Rightarrow> pyval \<Rightarrow> http_result \<Rightarrow> exn + pydict option" where
  "fetch_from_sina lib c http =
     (case fetch_from_sina_try lib c http of
        Inl e \<Rightarrow>
          (if e = RequestException \<or> e = ValueError \<or> e = IndexError then Inr None
           else Inl e)
      | Inr r \<Rightarrow> Inr r)"

section \<open>Choosing a quote\<close>

text \<open>
  What one call of \<^verbatim>\<open>get_best_data\<close> sees of the world: the fields of
  \<^verbatim>\<open>time.localtime()\<close> it reads (\<^verbatim>\<open>tm_wday\<close>, Monday is 0; \<^verbatim>\<open>tm_hour\<close>) and what each
  provider's server would answer if asked.
\<close>

record env =
  tm_wday :: nat
  tm_hour :: nat
  eastmoney_http :: http_result
  sina_http :: http_result

datatype provider = Eastmoney | Sina

text \<open>\<^verbatim>\<open>if x:\<close> and \<^verbatim>\<open>x or y\<close> on what a fetch returns (\<^verbatim>\<open>None\<close> or a dictionary).\<close>

definition truthy_remote :: "pydict option \<Rightarrow> bool" where
  "truthy_remote r = (case r of None \<Rightarrow> False | Some d \<Rightarrow> truthy (PDict d))"

definition remote_or :: "pydict option \<Rightarrow> pydict option \<Rightarrow> pydict option" where
  "remote_or a b = (if truthy_remote a then a else b)"

text \<open>
  \<^verbatim>\<open>get_best_data\<close>. The second component lists the fetches made, in order.
\<close>

definition get_best_data :: "pylib \<Rightarrow> env \<Rightarrow> pyval \<Rightarrow> (exn + pydict option) \<times> provider list" where
  "get_best_data lib w c =
     (let is_weekend = (tm_wday w \<ge> 5);
          is_trading_time = (9 \<le> tm_hour w \<and> tm_hour w \<le> 15)
      in case fetch_from_eastmoney lib c (eastmoney_http w) of
           Inl e \<Rightarrow> (Inl e, [Eastmoney])
         | Inr eastmoney \<Rightarrow>
             if is_trading_time \<and> truthy_remote eastmoney then (Inr eastmoney, [Eastmoney])
             else
               (case fetch_from_sina lib c (sina_http w) of
                  Inl e \<Rightarrow> (Inl e, [Eastmoney, Sina])
                | Inr sina \<Rightarrow>
                    if is_weekend then (Inr (remote_or sina eastmoney), [Eastmoney, Sina])
                    else (Inr (remote_or eastmoney sina), [Eastmoney, Sina])))"

subsection \<open>The session classifier and the decision table, as the specification words them\<close>

datatype session = weekend | trading_hours | off_hours

text \<open>
  Section 4.1: weekend if the local day of the week is Saturday (5) or Sunday (6), checked
  first; else trading hours if the local hour is in 9..15; else off hours.
\<close>

definition spec_session :: "nat \<Rightarrow> nat \<Rightarrow> session" where
  "spec_session wday hour =
     (if wday = 5 \<or> wday = 6 then weekend
      else if 9 \<le> hour \<and> hour \<le> 15 then trading_hours
      else off_hours)"

text \<open>Section 4.4, row by row: the provider whose quote is chosen, or none.\<close>

fun spec_decision_table :: "session \<Rightarrow> bool \<Rightarrow> bool \<Rightarrow> provider option" where
  "spec_decision_table trading_hours True _ = Some Eastmoney"
| "spec_decision_table trading_hours False True = Some Sina"
| "spec_decision_table trading_hours False False = None"
| "spec_decision_table weekend True True = Some Sina"
| "spec_decision_table weekend True False = Some Eastmoney"
| "spec_decision_table weekend False True = Some Sina"
| "spec_decision_table weekend False False = None"
| "spec_decision_table off_hours True _ = Some Eastmoney"
| "spec_decision_table off_hours False True = Some Sina"
| "spec_decision_table off_hours False False = None"

text \<open>
  Section 4.4, implementation rule: the provider preferred in each session state (the
  other one is the fallback).
\<close>

fun spec_preferred :: "session \<Rightarrow> provider" where
  "spec_preferred trading_hours = Eastmoney"
| "spec_preferred weekend = Sina"
| "spec_preferred off_hours = Eastmoney"

text \<open>The quote the table selects from what the two adapters return.\<close>

definition spec_choice :: "session \<Rightarrow> pydict option \<Rightarrow> pydict option \<Rightarrow> pydict option" where
  "spec_choice s primary secondary =
     (case spec_decision_table s (truthy_remote primary) (truthy_remote secondary) of
        None \<Rightarrow> None
      | Some Eastmoney \<Rightarrow> primary
      | Some Sina \<Rightarrow> secondary)"

section \<open>Business logic\<close>

definition format_update_time :: "pyval \<Rightarrow> pyval" where
  "format_update_time v = (if \<not> truthy v then PStr ''--'' else v)"

text \<open>
  The dictionary \<^verbatim>\<open>compute_fund_view\<close> returns has the same twelve keys on every path.
  The branch \<^verbatim>\<open>if remote:\<close> is taken for a dictionary that is not empty; \<^verbatim>\<open>None\<close> and
  the empty dictionary take the \<^verbatim>\<open>else\<close> branch (\<open>remote_or remote None\<close> is \<open>Some\<close> on the
  first and \<open>None\<close> on the second).
\<close>

record view =
  code :: pyval
  name :: pyval
  shares :: real
  cost :: real
  gsz :: real
  dwjz :: real
  gszzl :: real
  market_value :: real
  day_profit :: real
  total_profit :: real
  update_time :: pyval
  source :: pyval

definition compute_fund_view :: "pylib \<Rightarrow> pyval \<Rightarrow> pydict option \<Rightarrow> exn + view" where
  "compute_fund_view lib holding remote =
     exn_bind (subscript holding ''code'') (\<lambda>c.
     exn_bind (attr_get holding ''name'' PNone) (\<lambda>hn.
     let nm = py_or hn (PStr (fund_prefix @ py_str lib c)) in
     exn_bind (exn_bind (attr_get holding ''shares'' (PNum 0)) (py_float lib)) (\<lambda>sh.
     exn_bind (exn_bind (attr_get holding ''cost'' (PNum 0)) (py_float lib)) (\<lambda>co.
     exn_bind
       (case remote_or remote None of
          Some r \<Rightarrow>
            exn_bind (py_float lib (dict_get r ''gsz'' (PNum co))) (\<lambda>g.
            exn_bind (py_float lib (dict_get r ''dwjz'' (PNum co))) (\<lambda>d.
            exn_bind (py_float lib (dict_get r ''gszzl'' (PNum 0))) (\<lambda>z.
            Inr (g, d, z,
                 py_or (dict_get r ''name'' PNone) nm,
                 format_update_time (dict_get r ''update_time'' PNone),
                 dict_get r ''source'' (PStr ''unknown'')))))
        | None \<Rightarrow> Inr (co, co, 0, nm, PStr ''--'', PStr ''offline''))
       (\<lambda>(g, d, z, nm', ut, src).
          Inr \<lparr>code = c, name = nm', shares = sh, cost = co, gsz = g, dwjz = d, gszzl = z,
               market_value = sh * g,
               day_profit = (g - d) * sh,
               total_profit = (g - co) * sh,
               update_time = ut, source = src\<rparr>)))))"

section \<open>The holdings file and the routes\<close>

text \<open>
  \<^verbatim>\<open>funds.json\<close>: absent, present but not readable as JSON, or holding a JSON value.
\<close>

datatype file_state = NoFile | Unreadable | Stored pyval

fun load_holdings :: "file_state \<Rightarrow> pyval list" where
  "load_holdings (Stored (PList xs)) = xs"
| "load_holdings fs = []"










text \<open>
  \<^verbatim>\<open>get_valuations\<close>: the loop over the holdings with its four accumulators. The
  \<open>i\<close>-th iteration sees the world \<open>ws i\<close>. The field \<^verbatim>\<open>updated_at\<close> of the summary (the
  wall clock) is left out.
\<close>

record summary =
  total_market_value :: real
  total_day_profit :: real
  total_hold_profit :: real

fun valuations_loop ::
  "pylib \<Rightarrow> (nat \<Rightarrow> env) \<Rightarrow> nat \<Rightarrow> pyval list \<Rightarrow> view list \<Rightarrow> real \<Rightarrow> real \<Rightarrow> real
     \<Rightarrow> exn + (view list \<times> real \<times> real \<times> real)" where
  "valuations_loop lib ws i [] data total_market total_day total_prof =
     Inr (data, total_market, total_day, total_prof)"
| "valuations_loop lib ws i (holding # rest) data total_market total_day total_prof =
     exn_bind (subscript holding ''code'') (\<lambda>c.
     exn_bind (fst (get_best_data lib (ws i) c)) (\<lambda>remote.
     exn_bind (compute_fund_view lib holding remote) (\<lambda>v.
     valuations_loop lib ws (Suc i) rest (data @ [v])
       (total_market + market_value v)
       (total_day + day_profit v)
       (total_prof + total_profit v))))"

definition get_valuations :: "pylib \<Rightarrow> (nat \<Rightarrow> env) \<Rightarrow> file_state \<Rightarrow> exn + (view list \<times> summary)" where
  "get_valuations lib ws fs =
     exn_bind (valuations_loop lib ws 0 (load_holdings fs) [] 0 0 0) (\<lambda>(data, tm, td, tp).
     Inr (data, \<lparr>total_market_value = tm, total_day_profit = td, total_hold_profit = tp\<rparr>))"

section \<open>Example inputs\<close>

text \<open>
  A fragment of the library for the examples below: it agrees with Python on the arguments
  that occur in them (\<^verbatim>\<open>strip\<close> on strings whose only white space is the space
  character); its values on other arguments are not used.
\<close>

definition strip_spaces :: "string \<Rightarrow> string" where
  "strip_spaces s = rev (dropWhile (\<lambda>c. c = CHR '' '') (rev (dropWhile (\<lambda>c. c = CHR '' '') s)))"

definition example_json :: string where
  \<open>example_json = ''{"name":"X","gsz":"1.6","dwjz":"1.55","gszzl":"3.2","gztime":"14:00"}''\<close>

definition example_lib :: pylib where
  \<open>example_lib =
     \<lparr>float_of_str = (\<lambda>s. if s = ''1.6'' then Some 1.6
                          else if s = ''1.58'' then Some 1.58
                          else if s = ''1.55'' then Some 1.55
                          else if s = ''3.2'' then Some 3.2
                          else if s = ''0'' then Some 0
                          else None),
      str_of = (\<lambda>v. if v = PNone then ''None'' else []),
      strip = strip_spaces,
      json_loads = (\<lambda>s. if s = ''1'' then Some (PNum 1)
                        else if s = ''{"gsz":null}'' then Some (PDict [(''gsz'', PNone)])
                        else if s = example_json then
                          Some (PDict [(''name'', PStr ''X''), (''gsz'', PStr ''1.6''),
                                       (''dwjz'', PStr ''1.55''), (''gszzl'', PStr ''3.2''),
                                       (''gztime'', PStr ''14:00'')])
                        else None)\<rparr>\<close>

definition example_eastmoney_http :: http_result where
  "example_eastmoney_http =
     Responded \<lparr>resp_text = ''jsonpgz('' @ example_json @ '');'', resp_content_gbk = None\<rparr>"

definition example_sina_response :: response where
  \<open>example_sina_response =
     \<lparr>resp_text = ''var hq_str_f_000001="X,1.58,1.58,1.55,2024-01-05";'',
      resp_content_gbk = Some ''var hq_str_f_000001="X,1.58,1.58,1.55,2024-01-05";''\<rparr>\<close>

definition example_sina_zero_response :: response where
  \<open>example_sina_zero_response =
     \<lparr>resp_text = ''var hq_str_f_000009="N,1.58,1.58,0,2024-01-05";'',
      resp_content_gbk = None\<rparr>\<close>

definition example_sina_http :: http_result where
  "example_sina_http = Responded example_sina_response"

definition example_eastmoney_quote :: pydict where
  "example_eastmoney_quote =
     [(''source'', PStr ''eastmoney''), (''name'', PStr ''X''), (''gsz'', PNum 1.6),
      (''dwjz'', PNum 1.55), (''gszzl'', PNum 3.2), (''update_time'', PStr ''14:00'')]"

definition example_sina_quote :: pydict where
  "example_sina_quote =
     [(''source'', PStr ''sina''), (''name'', PStr ''X''), (''gsz'', PNum 1.58),
      (''dwjz'', PNum 1.55), (''gszzl'', PNum ((1.58 - 1.55) / 1.55 * 100)),
      (''update_time'', PStr ''2024-01-05'')]"

definition example_record :: pydict where
  "example_record = [(''code'', PStr ''000001''), (''shares'', PNum 100), (''cost'', PNum 1.5)]"

definition example_record2 :: pydict where
  "example_record2 =
     [(''code'', PStr ''000002''), (''name'', PStr ''Y''), (''shares'', PNum 10), (''cost'', PNum 2)]"

definition example_file :: file_state where
  "example_file = Stored (PList [PDict example_record, PDict example_record2])"

text \<open>
  A Wednesday at 10 o'clock: both providers answer the first holding's request and neither
  answers the second's.
\<close>

definition example_world :: "nat \<Rightarrow> env" where
  "example_world i =
     (if i = 0
      then \<lparr>tm_wday = 2, tm_hour = 10, eastmoney_http = example_eastmoney_http,
            sina_http = example_sina_http\<rparr>
      else \<lparr>tm_wday = 2, tm_hour = 10, eastmoney_http = Failed, sina_http = Failed\<rparr>)"

section \<open>Lemmas\<close>

subsection \<open>Exceptions\<close>

lemma exn_bind_simps:
  "exn_bind (Inl e) f = Inl e"
  "exn_bind (Inr x) f = f x"
  by (simp_all add: exn_bind_def)

lemma exn_bind_eq_Inr:
  "exn_bind m f = Inr y \<longleftrightarrow> (\<exists>x. m = Inr x \<and> f x = Inr y)"
  by (cases m) (simp_all add: exn_bind_def)

subsection \<open>The adapters\<close>

lemma str_float_cases:
  "str_float lib s = Inl ValueError \<or> (\<exists>r. str_float lib s = Inr r)"
  by (simp add: str_float_def split: option.splits)

lemma fetch_from_sina_try_cases:
  "fetch_from_sina_try lib c h = Inl RequestException
   \<or> fetch_from_sina_try lib c h = Inl ValueError
   \<or> (\<exists>r. fetch_from_sina_try lib c h = Inr r)"
proof (cases h)
  case Failed
  then show ?thesis by (simp add: fetch_from_sina_try_def)
next
  case (Responded res)
  show ?thesis
  proof (cases "sina_fields res")
    case None
    with Responded show ?thesis by (simp add: fetch_from_sina_try_def)
  next
    case (Some data)
    show ?thesis
    proof (cases "length data < 5")
      case True
      with Responded Some show ?thesis by (simp add: fetch_from_sina_try_def)
    next
      case False
      then have len: "0 < length data" "1 < length data" "3 < length data" "4 < length data"
        by auto
      from str_float_cases [of lib "data ! 1"] str_float_cases [of lib "data ! 3"]
      show ?thesis
        using Responded Some False len
        by (auto simp: fetch_from_sina_try_def list_item_def exn_bind_simps py_truediv_def split: if_splits)
    qed
  qed
qed

text \<open>The secondary adapter returns on every input: a quote or \<^verbatim>\<open>None\<close>.\<close>

lemma fetch_from_sina_returns: "\<exists>r. fetch_from_sina lib c h = Inr r"
  using fetch_from_sina_try_cases [of lib c h]
  by (auto simp: fetch_from_sina_def)

text \<open>A quote that an adapter returns has the six keys, with numbers in the numeric fields.\<close>

lemma fetch_from_sina_shape:
  assumes "fetch_from_sina lib c h = Inr (Some q)"
  shows "\<exists>nm g d z t. q = [(''source'', PStr ''sina''), (''name'', PStr nm), (''gsz'', PNum g),
            (''dwjz'', PNum d), (''gszzl'', PNum z), (''update_time'', PStr t)]"
proof -
  from assms have "fetch_from_sina_try lib c h = Inr (Some q)"
    by (auto simp: fetch_from_sina_def split: sum.splits if_splits)
  then show ?thesis
    by (auto simp: fetch_from_sina_try_def exn_bind_eq_Inr split: http_result.splits option.splits if_splits)
qed

lemma fetch_from_eastmoney_shape:
  assumes "fetch_from_eastmoney lib c h = Inr (Some q)"
  shows "\<exists>nm g d z t. q = [(''source'', PStr ''eastmoney''), (''name'', nm), (''gsz'', PNum g),
            (''dwjz'', PNum d), (''gszzl'', PNum z), (''update_time'', t)]"
proof -
  from assms have "fetch_from_eastmoney_try lib c h = Inr (Some q)"
    by (auto simp: fetch_from_eastmoney_def split: sum.splits if_splits)
  then show ?thesis
    by (auto simp: fetch_from_eastmoney_try_def exn_bind_eq_Inr split: http_result.splits option.splits if_splits)
qed

lemma fetch_from_eastmoney_truthy:
  "fetch_from_eastmoney lib c h = Inr p \<Longrightarrow> truthy_remote p \<longleftrightarrow> p \<noteq> None"
  by (cases p) (auto simp: truthy_remote_def dest: fetch_from_eastmoney_shape)

lemma fetch_from_sina_truthy:
  "fetch_from_sina lib c h = Inr p \<Longrightarrow> truthy_remote p \<longleftrightarrow> p \<noteq> None"
  by (cases p) (auto simp: truthy_remote_def dest: fetch_from_sina_shape)

lemma example_eastmoney_fetch:
  "fetch_from_eastmoney example_lib c example_eastmoney_http = Inr (Some example_eastmoney_quote)"
  by (simp add: fetch_from_eastmoney_def fetch_from_eastmoney_try_def example_eastmoney_http_def
      example_json_def example_lib_def exn_bind_simps dict_get_def example_eastmoney_quote_def)

lemma example_sina_fetch:
  "fetch_from_sina example_lib c example_sina_http = Inr (Some example_sina_quote)"
  by (simp add: fetch_from_sina_def fetch_from_sina_try_def example_sina_http_def example_sina_response_def sina_fields_def
      sina_content_def str_float_def list_item_def py_truediv_def
      example_lib_def exn_bind_simps example_sina_quote_def)

subsection \<open>The resolver\<close>

text \<open>
  Where both adapters return, \<^verbatim>\<open>get_best_data\<close> chooses what the decision table of
  section 4.4 chooses, except on a Saturday or Sunday between 9 and 15 o'clock when the
  primary quote is available.
\<close>

lemma get_best_data_table:
  assumes p: "fetch_from_eastmoney lib c (eastmoney_http w) = Inr p"
    and s: "fetch_from_sina lib c (sina_http w) = Inr s"
    and wday: "tm_wday w \<le> 6"
    and noslip: "\<not> (5 \<le> tm_wday w \<and> 9 \<le> tm_hour w \<and> tm_hour w \<le> 15 \<and> truthy_remote p)"
  shows "fst (get_best_data lib w c) = Inr (spec_choice (spec_session (tm_wday w) (tm_hour w)) p s)"
proof -
  have tp: "truthy_remote p \<longleftrightarrow> p \<noteq> None"
    using p by (rule fetch_from_eastmoney_truthy)
  have ts: "truthy_remote s \<longleftrightarrow> s \<noteq> None"
    using s by (rule fetch_from_sina_truthy)
  have wk: "5 \<le> tm_wday w \<longleftrightarrow> tm_wday w = 5 \<or> tm_wday w = 6"
    using wday by auto
  show ?thesis
  proof (cases "9 \<le> tm_hour w \<and> tm_hour w \<le> 15 \<and> truthy_remote p")
    case True
    with noslip have "\<not> 5 \<le> tm_wday w" by simp
    with True p wk show ?thesis
      by (simp add: get_best_data_def spec_session_def spec_choice_def)
  next
    case False
    show ?thesis
    proof (cases "5 \<le> tm_wday w")
      case True
      with False p s wk tp ts show ?thesis
        by (cases p; cases s) (auto simp: get_best_data_def spec_session_def spec_choice_def remote_or_def)
    next
      case False
      with \<open>\<not> (9 \<le> tm_hour w \<and> tm_hour w \<le> 15 \<and> truthy_remote p)\<close> p s wk tp ts show ?thesis
        by (cases p; cases s) (auto simp: get_best_data_def spec_session_def spec_choice_def remote_or_def)
    qed
  qed
qed

lemma get_best_data_shape:
  assumes "fst (get_best_data lib w c) = Inr (Some q)"
  shows "\<exists>src nm g d z t. q = [(''source'', PStr src), (''name'', nm), (''gsz'', PNum g),
            (''dwjz'', PNum d), (''gszzl'', PNum z), (''update_time'', t)]"
proof -
  from assms have "fetch_from_eastmoney lib c (eastmoney_http w) = Inr (Some q)
      \<or> fetch_from_sina lib c (sina_http w) = Inr (Some q)"
    by (auto simp: get_best_data_def remote_or_def split: sum.splits if_splits)
  then show ?thesis
    by (auto dest!: fetch_from_eastmoney_shape fetch_from_sina_shape)
qed

lemma get_best_data_none:
  assumes "fetch_from_eastmoney lib c (eastmoney_http w) = Inr None"
    and "fetch_from_sina lib c (sina_http w) = Inr None"
  shows "get_best_data lib w c = (Inr None, [Eastmoney, Sina])"
  using assms by (simp add: get_best_data_def remote_or_def truthy_remote_def)

text \<open>
  Where the primary adapter returns, \<^verbatim>\<open>get_best_data\<close> returns, and \<^verbatim>\<open>compute_fund_view\<close>
  returns on what it resolves for a holding with a code and numeric shares and cost.
\<close>

lemma get_best_data_returns:
  assumes "fetch_from_eastmoney lib c (eastmoney_http w) = Inr p"
  shows "\<exists>r. fst (get_best_data lib w c) = Inr r"
  using assms fetch_from_sina_returns [of lib c "sina_http w"]
  by (auto simp: get_best_data_def)

lemma compute_fund_view_returns:
  assumes c: "map_of h ''code'' = Some c"
    and sh: "py_float lib (dict_get h ''shares'' (PNum 0)) = Inr sh"
    and co: "py_float lib (dict_get h ''cost'' (PNum 0)) = Inr co"
    and r: "fst (get_best_data lib w c') = Inr r"
  shows "\<exists>v. compute_fund_view lib (PDict h) r = Inr v"
proof (cases r)
  case None
  with c sh co show ?thesis
    by (simp add: compute_fund_view_def exn_bind_simps remote_or_def truthy_remote_def)
next
  case (Some q)
  with r get_best_data_shape [of lib w c' q] obtain src nm g d z t where
    "q = [(''source'', PStr src), (''name'', nm), (''gsz'', PNum g),
            (''dwjz'', PNum d), (''gszzl'', PNum z), (''update_time'', t)]"
    by auto
  with Some c sh co show ?thesis
    by (simp add: compute_fund_view_def exn_bind_simps remote_or_def truthy_remote_def
        dict_get_def)
qed

subsection \<open>The routes\<close>

lemma foldl_add_sum_list:
  "foldl (\<lambda>acc v. acc + f v) a xs = a + sum_list (map f xs)" for a :: real
  by (induction xs arbitrary: a) (simp_all add: add.assoc)

lemma valuations_loop_sums:
  "valuations_loop lib ws i hs data tm td tp = Inr (data', tm', td', tp') \<Longrightarrow>
   \<exists>new. data' = data @ new \<and> length new = length hs
     \<and> tm' = tm + sum_list (map market_value new)
     \<and> td' = td + sum_list (map day_profit new)
     \<and> tp' = tp + sum_list (map total_profit new)"
proof (induction hs arbitrary: i data tm td tp)
  case Nil
  then show ?case by simp
next
  case (Cons h hs)
  from Cons.prems obtain c remote v where
    v: "compute_fund_view lib h remote = Inr v"
    and rest: "valuations_loop lib ws (Suc i) hs (data @ [v]) (tm + market_value v)
        (td + day_profit v) (tp + total_profit v) = Inr (data', tm', td', tp')"
    by (auto simp: exn_bind_eq_Inr)
  from Cons.IH [OF rest] obtain new where
    "data' = (data @ [v]) @ new" "length new = length hs"
    "tm' = tm + market_value v + sum_list (map market_value new)"
    "td' = td + day_profit v + sum_list (map day_profit new)"
    "tp' = tp + total_profit v + sum_list (map total_profit new)"
    by blast
  then show ?case
    by (intro exI [of _ "v # new"]) simp
qed

text \<open>
  \<^verbatim>\<open>get_valuations\<close> returns a list of views and a summary where every holding has a code
  and numeric shares and cost and the primary adapter raises nothing.
\<close>

lemma valuations_loop_returns:
  assumes "\<forall>x\<in>set hs. \<exists>h c sh co. x = PDict h \<and> map_of h ''code'' = Some c
      \<and> py_float lib (dict_get h ''shares'' (PNum 0)) = Inr sh
      \<and> py_float lib (dict_get h ''cost'' (PNum 0)) = Inr co"
    and "\<forall>i c. \<exists>p. fetch_from_eastmoney lib c (eastmoney_http (ws i)) = Inr p"
  shows "\<exists>r. valuations_loop lib ws i hs data tm td tp = Inr r"
  using assms
proof (induction hs arbitrary: i data tm td tp)
  case Nil
  then show ?case by simp
next
  case (Cons x hs)
  from Cons.prems(1) obtain h c sh co where
    x: "x = PDict h" and c: "map_of h ''code'' = Some c"
    and sh: "py_float lib (dict_get h ''shares'' (PNum 0)) = Inr sh"
    and co: "py_float lib (dict_get h ''cost'' (PNum 0)) = Inr co"
    by auto
  from Cons.prems(2) obtain p where "fetch_from_eastmoney lib c (eastmoney_http (ws i)) = Inr p"
    by blast
  from get_best_data_returns [OF this] obtain r where r: "fst (get_best_data lib (ws i) c) = Inr r"
    by blast
  from compute_fund_view_returns [OF c sh co r] obtain v where
    v: "compute_fund_view lib (PDict h) r = Inr v"
    by blast
  from Cons.prems have "\<forall>x\<in>set hs. \<exists>h c sh co. x = PDict h \<and> map_of h ''code'' = Some c
      \<and> py_float lib (dict_get h ''shares'' (PNum 0)) = Inr sh
      \<and> py_float lib (dict_get h ''cost'' (PNum 0)) = Inr co"
    by simp
  from Cons.IH [OF this Cons.prems(2)] x c r v show ?case
    by (simp add: exn_bind_simps)
qed

lemma get_valuations_returns:
  assumes "\<forall>x\<in>set (load_holdings fs). \<exists>h c sh co. x = PDict h \<and> map_of h ''code'' = Some c
      \<and> py_float lib (dict_get h ''shares'' (PNum 0)) = Inr sh
      \<and> py_float lib (dict_get h ''cost'' (PNum 0)) = Inr co"
    and "\<forall>i c. \<exists>p. fetch_from_eastmoney lib c (eastmoney_http (ws i)) = Inr p"
  shows "\<exists>data s. get_valuations lib ws fs = Inr (data, s)"
proof -
  from valuations_loop_returns [OF assms, of 0 "[]" 0 0 0] obtain data tm td tp where
    "valuations_loop lib ws 0 (load_holdings fs) [] 0 0 0 = Inr (data, tm, td, tp)"
    by (metis prod_cases4)
  then show ?thesis
    by (simp add: get_valuations_def exn_bind_simps)
qed




section \<open>The claims\<close>

subsection \<open>C1: the decision table\<close>

text \<open>
  Claim C1: at every time and for every availability of the providers, the quote chosen by
  \<^verbatim>\<open>get_best_data\<close> is the one the ten-row table of section 4.4 gives for the session
  state of that time, where Saturday and Sunday are \<open>weekend\<close> before the hour is looked at;
  so on a Saturday at 10 o'clock with both providers available the secondary quote is
  chosen.

  The code returns the primary quote there: the test \<^verbatim>\<open>is_trading_time and eastmoney\<close>
  returns before \<^verbatim>\<open>is_weekend\<close> is consulted. The theorem evaluates the code on a Saturday
  (\<^verbatim>\<open>tm_wday = 5\<close>) at 10 o'clock with both providers answering: the table selects the
  secondary quote, \<^verbatim>\<open>get_best_data\<close> returns the primary one. Everywhere else the
  code follows the table (lemma \<open>get_best_data_table\<close>).
\<close>

theorem get_best_data_saturday_morning:
  "spec_session 5 10 = weekend
   \<and> fetch_from_eastmoney example_lib (PStr ''000001'') example_eastmoney_http
       = Inr (Some example_eastmoney_quote)
   \<and> fetch_from_sina example_lib (PStr ''000001'') example_sina_http
       = Inr (Some example_sina_quote)
   \<and> spec_choice (spec_session 5 10) (Some example_eastmoney_quote) (Some example_sina_quote)
       = Some example_sina_quote
   \<and> fst (get_best_data example_lib
        \<lparr>tm_wday = 5, tm_hour = 10, eastmoney_http = example_eastmoney_http,
         sina_http = example_sina_http\<rparr>
        (PStr ''000001'')) = Inr (Some example_eastmoney_quote)
   \<and> example_eastmoney_quote \<noteq> example_sina_quote"
  by (simp add: spec_session_def spec_choice_def get_best_data_def example_eastmoney_fetch
      example_sina_fetch remote_or_def truthy_remote_def example_eastmoney_quote_def
      example_sina_quote_def)

subsection \<open>C2: no exception leaves an adapter\<close>

text \<open>
  Claim C2: whatever the provider answers (no answer, any text, a JSONP wrapper around any
  JSON value, fields that are not numbers, fewer than five fields), each adapter returns a
  quote or \<^verbatim>\<open>None\<close>, and no exception leaves it.

  \<^verbatim>\<open>fetch_from_sina\<close> does so (lemma \<open>fetch_from_sina_returns\<close>). \<^verbatim>\<open>fetch_from_eastmoney\<close>
  catches \<^verbatim>\<open>RequestException\<close>, \<^verbatim>\<open>ValueError\<close> and \<^verbatim>\<open>JSONDecodeError\<close> only: on the
  body \<^verbatim>\<open>jsonpgz(1);\<close> the call \<^verbatim>\<open>data.get\<close> on a number raises \<^verbatim>\<open>AttributeError\<close>, and
  on \<^verbatim>\<open>jsonpgz({"gsz":null});\<close> the call \<^verbatim>\<open>float(None)\<close> raises \<^verbatim>\<open>TypeError\<close>; both
  leave the function.
\<close>

theorem fetch_from_eastmoney_escapes:
  \<open>fetch_from_eastmoney example_lib (PStr ''000001'')
     (Responded \<lparr>resp_text = ''jsonpgz(1);'', resp_content_gbk = None\<rparr>) = Inl AttributeError
   \<and> fetch_from_eastmoney example_lib (PStr ''000001'')
     (Responded \<lparr>resp_text = ''jsonpgz({"gsz":null});'', resp_content_gbk = None\<rparr>) = Inl TypeError\<close>
  by (simp add: fetch_from_eastmoney_def fetch_from_eastmoney_try_def example_lib_def
      exn_bind_simps dict_get_def)

subsection \<open>C3: which providers are fetched\<close>

text \<open>
  Claim C3 as stated: at most one fetch per provider, and no fetch that the table does not
  require; in particular, when the provider preferred in the session state yields a quote,
  the other provider is not fetched. This fails during off hours: on a Monday at 20 o'clock
  the primary quote is available and chosen, and the secondary provider is fetched all the
  same.
\<close>

theorem get_best_data_off_hours_fetches_both:
  "spec_session 0 20 = off_hours
   \<and> spec_preferred off_hours = Eastmoney
   \<and> fetch_from_eastmoney example_lib (PStr ''000001'') example_eastmoney_http = Inr (Some example_eastmoney_quote)
   \<and> truthy_remote (Some example_eastmoney_quote)
   \<and> get_best_data example_lib
        \<lparr>tm_wday = 0, tm_hour = 20, eastmoney_http = example_eastmoney_http, sina_http = example_sina_http\<rparr>
        (PStr ''000001'') = (Inr (Some example_eastmoney_quote), [Eastmoney, Sina])"
  by (simp add: spec_session_def get_best_data_def example_eastmoney_fetch example_sina_fetch
      remote_or_def truthy_remote_def example_eastmoney_quote_def)

text \<open>
  Claim C3 as amended: for every code and time, \<^verbatim>\<open>get_best_data\<close> fetches the primary
  provider once, first, and the secondary provider at most once after it (also when the
  primary adapter raises). Where the primary adapter returns: during trading hours the
  secondary provider is fetched exactly when the primary quote is unavailable; during off
  hours it is always fetched, also when the primary quote is available and chosen; on a
  weekend it is fetched whenever the primary quote is unavailable or the hour is outside
  9..15.
\<close>

theorem get_best_data_fetches:
  "(snd (get_best_data lib w c) = [Eastmoney] \<or> snd (get_best_data lib w c) = [Eastmoney, Sina])
    \<and> (\<forall>p. fetch_from_eastmoney lib c (eastmoney_http w) = Inr p \<longrightarrow>
         (spec_session (tm_wday w) (tm_hour w) = trading_hours \<longrightarrow>
            (Sina \<in> set (snd (get_best_data lib w c)) \<longleftrightarrow> \<not> truthy_remote p))
       \<and> (spec_session (tm_wday w) (tm_hour w) = off_hours \<longrightarrow>
            snd (get_best_data lib w c) = [Eastmoney, Sina])
       \<and> (spec_session (tm_wday w) (tm_hour w) = weekend
              \<and> (\<not> truthy_remote p \<or> \<not> (9 \<le> tm_hour w \<and> tm_hour w \<le> 15)) \<longrightarrow>
            snd (get_best_data lib w c) = [Eastmoney, Sina]))"
proof (intro conjI allI impI)
  show "snd (get_best_data lib w c) = [Eastmoney] \<or> snd (get_best_data lib w c) = [Eastmoney, Sina]"
    by (simp add: get_best_data_def split: sum.splits)
next
  fix p
  assume p: "fetch_from_eastmoney lib c (eastmoney_http w) = Inr p"
    and "spec_session (tm_wday w) (tm_hour w) = trading_hours"
  then show "Sina \<in> set (snd (get_best_data lib w c)) \<longleftrightarrow> \<not> truthy_remote p"
    by (auto simp: get_best_data_def spec_session_def split: sum.splits if_splits)
next
  fix p
  assume p: "fetch_from_eastmoney lib c (eastmoney_http w) = Inr p"
    and "spec_session (tm_wday w) (tm_hour w) = off_hours"
  then show "snd (get_best_data lib w c) = [Eastmoney, Sina]"
    by (auto simp: get_best_data_def spec_session_def split: sum.splits if_splits)
next
  fix p
  assume p: "fetch_from_eastmoney lib c (eastmoney_http w) = Inr p"
    and "spec_session (tm_wday w) (tm_hour w) = weekend
           \<and> (\<not> truthy_remote p \<or> \<not> (9 \<le> tm_hour w \<and> tm_hour w \<le> 15))"
  then show "snd (get_best_data lib w c) = [Eastmoney, Sina]"
    by (auto simp: get_best_data_def spec_session_def split: sum.splits if_splits)
qed

theorem get_best_data_fetches_witness:
  "fetch_from_eastmoney example_lib (PStr ''000001'') example_eastmoney_http
     = Inr (Some example_eastmoney_quote)
   \<and> truthy_remote (Some example_eastmoney_quote)
   \<and> spec_session 2 10 = trading_hours
   \<and> snd (get_best_data example_lib
        \<lparr>tm_wday = 2, tm_hour = 10, eastmoney_http = example_eastmoney_http,
         sina_http = example_sina_http\<rparr> (PStr ''000001'')) = [Eastmoney]
   \<and> spec_session 2 20 = off_hours
   \<and> snd (get_best_data example_lib
        \<lparr>tm_wday = 2, tm_hour = 20, eastmoney_http = example_eastmoney_http,
         sina_http = example_sina_http\<rparr> (PStr ''000001'')) = [Eastmoney, Sina]
   \<and> spec_session 6 20 = weekend
   \<and> snd (get_best_data example_lib
        \<lparr>tm_wday = 6, tm_hour = 20, eastmoney_http = example_eastmoney_http,
         sina_http = example_sina_http\<rparr> (PStr ''000001'')) = [Eastmoney, Sina]
   \<and> fetch_from_eastmoney example_lib (PStr ''000001'')
        (Responded \<lparr>resp_text = ''jsonpgz(1);'', resp_content_gbk = None\<rparr>) = Inl AttributeError
   \<and> (snd (get_best_data example_lib
          \<lparr>tm_wday = 2, tm_hour = 20,
           eastmoney_http = Responded \<lparr>resp_text = ''jsonpgz(1);'', resp_content_gbk = None\<rparr>,
           sina_http = example_sina_http\<rparr> (PStr ''000001'')) = [Eastmoney]
        \<or> snd (get_best_data example_lib
          \<lparr>tm_wday = 2, tm_hour = 20,
           eastmoney_http = Responded \<lparr>resp_text = ''jsonpgz(1);'', resp_content_gbk = None\<rparr>,
           sina_http = example_sina_http\<rparr> (PStr ''000001'')) = [Eastmoney, Sina])"
proof -
  let ?w = "\<lambda>d t. \<lparr>tm_wday = d, tm_hour = t, eastmoney_http = example_eastmoney_http,
         sina_http = example_sina_http\<rparr>"
  have h: "fetch_from_eastmoney example_lib (PStr ''000001'') (eastmoney_http (?w d t))
      = Inr (Some example_eastmoney_quote)" for d t
    by (simp add: example_eastmoney_fetch)
  have t: "truthy_remote (Some example_eastmoney_quote)"
    by (simp add: truthy_remote_def example_eastmoney_quote_def)
  have e: "fetch_from_eastmoney example_lib (PStr ''000001'')
        (Responded \<lparr>resp_text = ''jsonpgz(1);'', resp_content_gbk = None\<rparr>) = Inl AttributeError"
    by (simp add: fetch_from_eastmoney_def fetch_from_eastmoney_try_def example_lib_def
        exn_bind_simps)
  have s: "spec_session 2 10 = trading_hours" "spec_session 2 20 = off_hours"
    "spec_session 6 20 = weekend"
    by (simp_all add: spec_session_def)
  note a = get_best_data_fetches [of example_lib "?w 2 10" "PStr ''000001''", THEN conjunct2,
      THEN spec, THEN mp, OF h]
  note b = get_best_data_fetches [of example_lib "?w 2 20" "PStr ''000001''", THEN conjunct2,
      THEN spec, THEN mp, OF h]
  note c = get_best_data_fetches [of example_lib "?w 6 20" "PStr ''000001''", THEN conjunct2,
      THEN spec, THEN mp, OF h]
  note d = get_best_data_fetches [of example_lib
      "\<lparr>tm_wday = 2, tm_hour = 20,
        eastmoney_http = Responded \<lparr>resp_text = ''jsonpgz(1);'', resp_content_gbk = None\<rparr>,
        sina_http = example_sina_http\<rparr>" "PStr ''000001''", THEN conjunct1]
  have a': "snd (get_best_data example_lib (?w 2 10) (PStr ''000001'')) = [Eastmoney]"
    using a [THEN conjunct1] t s
      get_best_data_fetches [of example_lib "?w 2 10" "PStr ''000001''", THEN conjunct1]
    by auto
  have b': "snd (get_best_data example_lib (?w 2 20) (PStr ''000001'')) = [Eastmoney, Sina]"
    using b [THEN conjunct2, THEN conjunct1] s by simp
  have c': "snd (get_best_data example_lib (?w 6 20) (PStr ''000001'')) = [Eastmoney, Sina]"
    using c [THEN conjunct2, THEN conjunct2] s by simp
  from a' b' c' d e t s example_eastmoney_fetch [of "PStr ''000001''"]
  show ?thesis
    by simp
qed

subsection \<open>C4: the offline view\<close>

text \<open>
  Claim C4: for a holding with \<open>shares > 0\<close> and \<open>cost > 0\<close>, when both providers are
  unavailable (at any time), the view has \<open>gsz = dwjz = cost\<close>, \<open>gszzl = 0\<close>,
  \<open>day_profit = 0\<close>, \<open>total_profit = 0\<close>, \<open>market_value = shares * cost\<close>, source
  \<^verbatim>\<open>offline\<close> and update time \<^verbatim>\<open>--\<close>. The holding is a dictionary \<open>h\<close> with a code, whose
  shares and cost convert to the numbers \<open>sh\<close> and \<open>co\<close>; the view is what the loop of
  \<^verbatim>\<open>get_valuations\<close> computes: \<^verbatim>\<open>compute_fund_view\<close> on the result of \<^verbatim>\<open>get_best_data\<close>.
\<close>

theorem offline_view:
  assumes c: "map_of h ''code'' = Some c"
    and sh: "py_float lib (dict_get h ''shares'' (PNum 0)) = Inr sh" "0 < sh"
    and co: "py_float lib (dict_get h ''cost'' (PNum 0)) = Inr co" "0 < co"
    and p: "fetch_from_eastmoney lib c (eastmoney_http w) = Inr None"
    and s: "fetch_from_sina lib c (sina_http w) = Inr None"
  shows "\<exists>v. exn_bind (fst (get_best_data lib w c)) (compute_fund_view lib (PDict h)) = Inr v
    \<and> gsz v = co \<and> dwjz v = co \<and> gszzl v = 0 \<and> day_profit v = 0 \<and> total_profit v = 0
    \<and> market_value v = sh * co \<and> source v = PStr ''offline'' \<and> update_time v = PStr ''--''"
  using c sh(1) co(1)
  by (simp add: get_best_data_none [OF p s] compute_fund_view_def exn_bind_simps remote_or_def
      truthy_remote_def)

theorem offline_view_witness:
  "map_of example_record ''code'' = Some (PStr ''000001'')
   \<and> py_float example_lib (dict_get example_record ''shares'' (PNum 0)) = Inr 100
   \<and> py_float example_lib (dict_get example_record ''cost'' (PNum 0)) = Inr 1.5
   \<and> fetch_from_eastmoney example_lib (PStr ''000001'') Failed = Inr None
   \<and> fetch_from_sina example_lib (PStr ''000001'') Failed = Inr None
   \<and> (\<exists>v. exn_bind
          (fst (get_best_data example_lib
             \<lparr>tm_wday = 6, tm_hour = 12, eastmoney_http = Failed, sina_http = Failed\<rparr>
             (PStr ''000001'')))
          (compute_fund_view example_lib (PDict example_record)) = Inr v
        \<and> gsz v = 1.5 \<and> dwjz v = 1.5 \<and> gszzl v = 0 \<and> day_profit v = 0 \<and> total_profit v = 0
        \<and> market_value v = 150 \<and> source v = PStr ''offline'' \<and> update_time v = PStr ''--'')"
proof -
  let ?w = "\<lparr>tm_wday = 6, tm_hour = 12, eastmoney_http = Failed, sina_http = Failed\<rparr>"
  have c: "map_of example_record ''code'' = Some (PStr ''000001'')"
    by (simp add: example_record_def)
  have sh: "py_float example_lib (dict_get example_record ''shares'' (PNum 0)) = Inr 100"
    by (simp add: example_record_def dict_get_def)
  have co: "py_float example_lib (dict_get example_record ''cost'' (PNum 0)) = Inr 1.5"
    by (simp add: example_record_def dict_get_def)
  have pos: "(0::real) < 100" "(0::real) < 1.5"
    by simp_all
  have p: "fetch_from_eastmoney example_lib (PStr ''000001'') (eastmoney_http ?w) = Inr None"
    by (simp add: fetch_from_eastmoney_def fetch_from_eastmoney_try_def)
  have s: "fetch_from_sina example_lib (PStr ''000001'') (sina_http ?w) = Inr None"
    by (simp add: fetch_from_sina_def fetch_from_sina_try_def)
  from offline_view [OF c sh pos(1) co pos(2) p s] c sh co p s
  show ?thesis
    by simp
qed

subsection \<open>C5: the view of a resolved quote\<close>

text \<open>
  Claim C5: for every holding and every quote \<open>q\<close> that \<^verbatim>\<open>get_best_data\<close> resolves, the view
  takes \<open>gsz\<close>, \<open>dwjz\<close>, \<open>gszzl\<close> and the source from the quote; its name is the quote's name,
  or, where that is empty, the holding's (the holding's own name, or the generated one
  where it has none); its update time is the quote's, or \<^verbatim>\<open>--\<close> where that is empty; and
  \<open>market_value = shares * gsz\<close>, \<open>day_profit = (gsz - dwjz) * shares\<close>,
  \<open>total_profit = (gsz - cost) * shares\<close>.
\<close>

theorem quote_view:
  assumes c: "map_of h ''code'' = Some c"
    and sh: "py_float lib (dict_get h ''shares'' (PNum 0)) = Inr sh"
    and co: "py_float lib (dict_get h ''cost'' (PNum 0)) = Inr co"
    and q: "fst (get_best_data lib w c) = Inr (Some q)"
  shows "\<exists>v. compute_fund_view lib (PDict h) (Some q) = Inr v
    \<and> map_of q ''gsz'' = Some (PNum (gsz v))
    \<and> map_of q ''dwjz'' = Some (PNum (dwjz v))
    \<and> map_of q ''gszzl'' = Some (PNum (gszzl v))
    \<and> map_of q ''source'' = Some (source v)
    \<and> (\<exists>qn. map_of q ''name'' = Some qn
          \<and> name v = (if truthy qn then qn
                       else py_or (dict_get h ''name'' PNone) (PStr (fund_prefix @ py_str lib c))))
    \<and> (\<exists>t. map_of q ''update_time'' = Some t
          \<and> update_time v = (if truthy t then t else PStr ''--''))
    \<and> code v = c \<and> shares v = sh \<and> cost v = co
    \<and> market_value v = shares v * gsz v
    \<and> day_profit v = (gsz v - dwjz v) * shares v
    \<and> total_profit v = (gsz v - cost v) * shares v"
proof -
  from get_best_data_shape [OF q] obtain src nm g d z t where
    "q = [(''source'', PStr src), (''name'', nm), (''gsz'', PNum g),
            (''dwjz'', PNum d), (''gszzl'', PNum z), (''update_time'', t)]"
    by blast
  with c sh co show ?thesis
    by (simp add: compute_fund_view_def exn_bind_simps remote_or_def truthy_remote_def
        dict_get_def py_or_def format_update_time_def)
qed

theorem quote_view_witness:
  "map_of example_record ''code'' = Some (PStr ''000001'')
   \<and> fst (get_best_data example_lib (example_world 0) (PStr ''000001''))
       = Inr (Some example_eastmoney_quote)
   \<and> (\<exists>v. compute_fund_view example_lib (PDict example_record) (Some example_eastmoney_quote) = Inr v
        \<and> gsz v = 1.6 \<and> dwjz v = 1.55 \<and> gszzl v = 3.2 \<and> source v = PStr ''eastmoney''
        \<and> name v = PStr ''X'' \<and> update_time v = PStr ''14:00''
        \<and> market_value v = 160 \<and> day_profit v = 5 \<and> total_profit v = 10)"
proof -
  have c: "map_of example_record ''code'' = Some (PStr ''000001'')"
    by (simp add: example_record_def)
  have sh: "py_float example_lib (dict_get example_record ''shares'' (PNum 0)) = Inr 100"
    by (simp add: example_record_def dict_get_def)
  have co: "py_float example_lib (dict_get example_record ''cost'' (PNum 0)) = Inr 1.5"
    by (simp add: example_record_def dict_get_def)
  have q: "fst (get_best_data example_lib (example_world 0) (PStr ''000001''))
      = Inr (Some example_eastmoney_quote)"
    by (simp add: get_best_data_def example_world_def example_eastmoney_fetch truthy_remote_def
        example_eastmoney_quote_def)
  from quote_view [OF c sh co q] obtain v where
    v: "compute_fund_view example_lib (PDict example_record) (Some example_eastmoney_quote) = Inr v"
    and f: "map_of example_eastmoney_quote ''gsz'' = Some (PNum (gsz v))"
      "map_of example_eastmoney_quote ''dwjz'' = Some (PNum (dwjz v))"
      "map_of example_eastmoney_quote ''gszzl'' = Some (PNum (gszzl v))"
      "map_of example_eastmoney_quote ''source'' = Some (source v)"
    and n: "\<exists>qn. map_of example_eastmoney_quote ''name'' = Some qn
          \<and> name v = (if truthy qn then qn
                       else py_or (dict_get example_record ''name'' PNone)
                              (PStr (fund_prefix @ py_str example_lib (PStr ''000001''))))"
    and u: "\<exists>t. map_of example_eastmoney_quote ''update_time'' = Some t
          \<and> update_time v = (if truthy t then t else PStr ''--'')"
    and r: "shares v = 100" "cost v = 1.5"
      "market_value v = shares v * gsz v"
      "day_profit v = (gsz v - dwjz v) * shares v"
      "total_profit v = (gsz v - cost v) * shares v"
    by blast
  from f have g: "gsz v = 1.6" "dwjz v = 1.55" "gszzl v = 3.2" "source v = PStr ''eastmoney''"
    by (simp_all add: example_eastmoney_quote_def)
  from n u have "name v = PStr ''X''" "update_time v = PStr ''14:00''"
    by (auto simp: example_eastmoney_quote_def)
  with v g r c q show ?thesis
    by simp
qed

subsection \<open>C6: the percent change of the secondary provider\<close>

text \<open>
  Claim C6: for every answer of the secondary provider with at least five fields whose
  fields 1 and 3 are numbers \<open>g\<close> and \<open>d\<close>, \<^verbatim>\<open>fetch_from_sina\<close> returns a quote with
  \<open>gszzl = (g - d) / d * 100\<close>, and \<open>gszzl = 0\<close> when \<open>d = 0\<close>. No division by zero is
  performed: \<open>py_truediv\<close> would raise \<^verbatim>\<open>ZeroDivisionError\<close>, which the function does not
  catch, and the function returns.
\<close>

theorem sina_percent_change:
  assumes f: "sina_fields res = Some data"
    and len: "5 \<le> length data"
    and g: "float_of_str lib (data ! 1) = Some g"
    and d: "float_of_str lib (data ! 3) = Some d"
  shows "\<exists>q. fetch_from_sina lib c (Responded res) = Inr (Some q)
    \<and> map_of q ''gsz'' = Some (PNum g)
    \<and> map_of q ''dwjz'' = Some (PNum d)
    \<and> map_of q ''gszzl'' = Some (PNum (if d = 0 then 0 else (g - d) / d * 100))"
proof -
  from len have l: "\<not> length data < 5" "0 < length data" "1 < length data" "3 < length data" "4 < length data"
    by auto
  show ?thesis
    using f l g d
    by (simp add: fetch_from_sina_def fetch_from_sina_try_def list_item_def str_float_def
        py_truediv_def exn_bind_simps)
qed

theorem sina_percent_change_witness:
  "sina_fields example_sina_response = Some [''X'', ''1.58'', ''1.58'', ''1.55'', ''2024-01-05'']
   \<and> (\<exists>q. fetch_from_sina example_lib (PStr ''000001'') (Responded example_sina_response) = Inr (Some q)
        \<and> map_of q ''gszzl'' = Some (PNum ((1.58 - 1.55) / 1.55 * 100)))
   \<and> sina_fields example_sina_zero_response = Some [''N'', ''1.58'', ''1.58'', ''0'', ''2024-01-05'']
   \<and> (\<exists>q. fetch_from_sina example_lib (PStr ''000009'') (Responded example_sina_zero_response) = Inr (Some q)
        \<and> map_of q ''gszzl'' = Some (PNum 0))"
proof -
  have f1: "sina_fields example_sina_response = Some [''X'', ''1.58'', ''1.58'', ''1.55'', ''2024-01-05'']"
    by (simp add: sina_fields_def sina_content_def example_sina_response_def)
  have f2: "sina_fields example_sina_zero_response = Some [''N'', ''1.58'', ''1.58'', ''0'', ''2024-01-05'']"
    by (simp add: sina_fields_def sina_content_def example_sina_zero_response_def)
  have l1: "5 \<le> length [''X'', ''1.58'', ''1.58'', ''1.55'', ''2024-01-05'']"
    and l2: "5 \<le> length [''N'', ''1.58'', ''1.58'', ''0'', ''2024-01-05'']"
    by simp_all
  have g1: "float_of_str example_lib ([''X'', ''1.58'', ''1.58'', ''1.55'', ''2024-01-05''] ! 1) = Some 1.58"
    and d1: "float_of_str example_lib ([''X'', ''1.58'', ''1.58'', ''1.55'', ''2024-01-05''] ! 3) = Some 1.55"
    and g2: "float_of_str example_lib ([''N'', ''1.58'', ''1.58'', ''0'', ''2024-01-05''] ! 1) = Some 1.58"
    and d2: "float_of_str example_lib ([''N'', ''1.58'', ''1.58'', ''0'', ''2024-01-05''] ! 3) = Some 0"
    by (simp_all add: example_lib_def)
  from sina_percent_change [OF f1 l1 g1 d1, of "PStr ''000001''"]
    sina_percent_change [OF f2 l2 g2 d2, of "PStr ''000009''"] f1 f2
  show ?thesis
    by auto
qed

subsection \<open>C7: the summary\<close>

text \<open>
  Claim C7: the summary of \<^verbatim>\<open>get_valuations\<close> holds the sums, over all the views it
  returns (one per holding), of \<open>market_value\<close>, \<open>day_profit\<close> and \<open>total_profit\<close>, as
  accumulated from 0 in the order of the list.
\<close>

theorem get_valuations_summary:
  assumes "get_valuations lib ws fs = Inr (data, s)"
  shows "length data = length (load_holdings fs)
    \<and> total_market_value s = sum_list (map market_value data)
    \<and> total_day_profit s = sum_list (map day_profit data)
    \<and> total_hold_profit s = sum_list (map total_profit data)
    \<and> total_market_value s = foldl (\<lambda>acc v. acc + market_value v) 0 data
    \<and> total_day_profit s = foldl (\<lambda>acc v. acc + day_profit v) 0 data
    \<and> total_hold_profit s = foldl (\<lambda>acc v. acc + total_profit v) 0 data"
proof -
  from assms obtain tm td tp where
    loop: "valuations_loop lib ws 0 (load_holdings fs) [] 0 0 0 = Inr (data, tm, td, tp)"
    and s: "s = \<lparr>total_market_value = tm, total_day_profit = td, total_hold_profit = tp\<rparr>"
    by (auto simp: get_valuations_def exn_bind_eq_Inr)
  from valuations_loop_sums [OF loop] s show ?thesis
    by (auto simp: foldl_add_sum_list)
qed

theorem get_valuations_summary_witness:
  "\<exists>v1 v2 s. get_valuations example_lib example_world example_file = Inr ([v1, v2], s)
     \<and> market_value v1 = 160 \<and> market_value v2 = 20
     \<and> total_market_value s = 180 \<and> total_day_profit s = 5 \<and> total_hold_profit s = 10
     \<and> total_market_value s = sum_list (map market_value [v1, v2])"
proof -
  let ?v1 = "\<lparr>code = PStr ''000001'', name = PStr ''X'', shares = 100, cost = 1.5, gsz = 1.6,
      dwjz = 1.55, gszzl = 3.2, market_value = 160, day_profit = 5, total_profit = 10,
      update_time = PStr ''14:00'', source = PStr ''eastmoney''\<rparr>"
  let ?v2 = "\<lparr>code = PStr ''000002'', name = PStr ''Y'', shares = 10, cost = 2, gsz = 2,
      dwjz = 2, gszzl = 0, market_value = 20, day_profit = 0, total_profit = 0,
      update_time = PStr ''--'', source = PStr ''offline''\<rparr>"
  let ?s = "\<lparr>total_market_value = 180, total_day_profit = 5, total_hold_profit = 10\<rparr>"
  have q1: "fst (get_best_data example_lib (example_world 0) (PStr ''000001''))
      = Inr (Some example_eastmoney_quote)"
    by (simp add: get_best_data_def example_world_def example_eastmoney_fetch truthy_remote_def
        example_eastmoney_quote_def)
  have q2: "fst (get_best_data example_lib (example_world (Suc 0)) (PStr ''000002'')) = Inr None"
    by (simp add: get_best_data_def example_world_def fetch_from_eastmoney_def
        fetch_from_eastmoney_try_def fetch_from_sina_def fetch_from_sina_try_def
        truthy_remote_def remote_or_def)
  have v1: "compute_fund_view example_lib (PDict example_record) (Some example_eastmoney_quote)
      = Inr ?v1"
    by (simp add: compute_fund_view_def example_record_def example_eastmoney_quote_def
        exn_bind_simps dict_get_def py_or_def remote_or_def truthy_remote_def
        format_update_time_def)
  have v2: "compute_fund_view example_lib (PDict example_record2) None = Inr ?v2"
    by (simp add: compute_fund_view_def example_record2_def exn_bind_simps dict_get_def
        py_or_def remote_or_def truthy_remote_def)
  have c1: "map_of example_record ''code'' = Some (PStr ''000001'')"
    and c2: "map_of example_record2 ''code'' = Some (PStr ''000002'')"
    by (simp_all add: example_record_def example_record2_def)
  have h: "get_valuations example_lib example_world example_file = Inr ([?v1, ?v2], ?s)"
    by (simp add: get_valuations_def example_file_def exn_bind_simps c1 c2 q1 q2 v1 v2)
  from get_valuations_summary [OF h] h show ?thesis
    by simp
qed

subsection \<open>C8: adding a fund keeps the codes unique\<close>



subsection \<open>C9: deleting a fund\<close>



subsection \<open>C10: a quote with missing fields\<close>

text \<open>
  Claim C10: when a quote is present (\<^verbatim>\<open>if remote:\<close> holds, that is, the dictionary is not
  empty) and lacks \<^verbatim>\<open>gsz\<close> or \<^verbatim>\<open>dwjz\<close>, the view takes the holding's cost for the field
  that is missing; a missing \<^verbatim>\<open>gszzl\<close> becomes 0 and a missing source \<^verbatim>\<open>unknown\<close>, while a
  source that the quote has is kept. So a quote without both numeric fields gives
  \<open>day_profit = 0\<close> and \<open>total_profit = 0\<close>, and its source is not replaced by
  \<^verbatim>\<open>offline\<close>. The fields that the quote has are assumed to convert to numbers.
\<close>

theorem partial_quote_view:
  assumes c: "map_of h ''code'' = Some c"
    and sh: "py_float lib (dict_get h ''shares'' (PNum 0)) = Inr sh"
    and co: "py_float lib (dict_get h ''cost'' (PNum 0)) = Inr co"
    and q: "q \<noteq> []"
    and g: "py_float lib (dict_get q ''gsz'' (PNum co)) = Inr g"
    and d: "py_float lib (dict_get q ''dwjz'' (PNum co)) = Inr d"
    and z: "py_float lib (dict_get q ''gszzl'' (PNum 0)) = Inr z"
  shows "\<exists>v. compute_fund_view lib (PDict h) (Some q) = Inr v
    \<and> (map_of q ''gsz'' = None \<longrightarrow> gsz v = co)
    \<and> (map_of q ''dwjz'' = None \<longrightarrow> dwjz v = co)
    \<and> (map_of q ''gszzl'' = None \<longrightarrow> gszzl v = 0)
    \<and> (map_of q ''source'' = None \<longrightarrow> source v = PStr ''unknown'')
    \<and> (\<forall>s. map_of q ''source'' = Some s \<longrightarrow> source v = s)
    \<and> (map_of q ''gsz'' = None \<and> map_of q ''dwjz'' = None \<longrightarrow>
          day_profit v = 0 \<and> total_profit v = 0 \<and> market_value v = sh * co)"
  using assms
  by (auto simp: compute_fund_view_def exn_bind_simps remote_or_def truthy_remote_def
        dict_get_def)

theorem partial_quote_view_witness:
  "(\<exists>v. compute_fund_view example_lib (PDict example_record) (Some [(''source'', PStr ''sina'')]) = Inr v
      \<and> gsz v = 1.5 \<and> dwjz v = 1.5 \<and> gszzl v = 0 \<and> source v = PStr ''sina''
      \<and> day_profit v = 0 \<and> total_profit v = 0 \<and> market_value v = 150)
   \<and> (\<exists>v. compute_fund_view example_lib (PDict example_record) (Some [(''name'', PStr ''X'')]) = Inr v
      \<and> source v = PStr ''unknown'')"
proof -
  let ?q1 = "[(''source'', PStr ''sina'')]"
  let ?q2 = "[(''name'', PStr ''X'')]"
  have c: "map_of example_record ''code'' = Some (PStr ''000001'')"
    by (simp add: example_record_def)
  have sh: "py_float example_lib (dict_get example_record ''shares'' (PNum 0)) = Inr 100"
    by (simp add: example_record_def dict_get_def)
  have co: "py_float example_lib (dict_get example_record ''cost'' (PNum 0)) = Inr 1.5"
    by (simp add: example_record_def dict_get_def)
  have n1: "?q1 \<noteq> []" and n2: "?q2 \<noteq> []"
    by simp_all
  have g1: "py_float example_lib (dict_get ?q1 ''gsz'' (PNum 1.5)) = Inr 1.5"
    and d1: "py_float example_lib (dict_get ?q1 ''dwjz'' (PNum 1.5)) = Inr 1.5"
    and z1: "py_float example_lib (dict_get ?q1 ''gszzl'' (PNum 0)) = Inr 0"
    and g2: "py_float example_lib (dict_get ?q2 ''gsz'' (PNum 1.5)) = Inr 1.5"
    and d2: "py_float example_lib (dict_get ?q2 ''dwjz'' (PNum 1.5)) = Inr 1.5"
    and z2: "py_float example_lib (dict_get ?q2 ''gszzl'' (PNum 0)) = Inr 0"
    by (simp_all add: dict_get_def)
  from partial_quote_view [OF c sh co n1 g1 d1 z1] partial_quote_view [OF c sh co n2 g2 d2 z2]
  show ?thesis
    by auto
qed

end
